theory Spec2Isabelle
  imports Complex_Main "HOL-Library.Sublist" "HOL-Library.AList" "HOL-Library.Option_ord"
begin

section \<open>Python exceptions as values, external calls as a trace\<close>

text \<open>
  The notebooks are Python scripts that call vendor libraries. A call that raises is
  modelled by an answer in the left summand. A program takes the trace of the calls made
  so far and returns its outcome with the extended trace; every operation that can
  raise is recorded with the exception it raised, if any. Nothing below catches an
  exception, because nothing in the notebooks does: \<open>then_do\<close> stops at the first one.
\<close>

datatype exn =
    KeyError string
  | IndexError
  | ValueError
  | ServiceError string

type_synonym 'c trace = "('c \<times> exn option) list"

type_synonym ('c, 'a) prog = "'c trace \<Rightarrow> (exn + 'a) \<times> 'c trace"

definition raised :: "exn + 'a \<Rightarrow> exn option" where
  "raised r = (case r of Inl e \<Rightarrow> Some e | Inr _ \<Rightarrow> None)"

definition call :: "'c \<Rightarrow> exn + 'a \<Rightarrow> ('c, 'a) prog" where
  "call c r tr = (r, tr @ [(c, raised r)])"

definition ret :: "'a \<Rightarrow> ('c, 'a) prog" where
  "ret v tr = (Inr v, tr)"

definition then_do :: "('c, 'a) prog \<Rightarrow> ('a \<Rightarrow> ('c, 'b) prog) \<Rightarrow> ('c, 'b) prog" where
  "then_do m f tr = (case m tr of (Inl e, tr') \<Rightarrow> (Inl e, tr') | (Inr v, tr') \<Rightarrow> f v tr')"

text \<open>
  A program is fail-stop when every call it adds to the trace but the last succeeded,
  and an exceptional outcome is the exception of the last call: no call follows a
  failure, and no failure is swallowed.
\<close>

definition succeeded :: "'c trace \<Rightarrow> bool" where
  "succeeded tr = list_all (\<lambda>entry. snd entry = None) tr"

definition fail_stop :: "('c, 'a) prog \<Rightarrow> bool" where
  "fail_stop p =
     (\<forall>tr. \<exists>new. snd (p tr) = tr @ new \<and>
        (case fst (p tr) of
           Inr v \<Rightarrow> succeeded new
         | Inl e \<Rightarrow> new \<noteq> [] \<and> succeeded (butlast new) \<and> snd (last new) = Some e))"

subsection \<open>Python lists and strings\<close>

text \<open>
  \<open>xs[i]\<close> counts a negative index from the end and raises IndexError out of range.
  \<open>sep.join(xs)\<close> puts the separator between the elements. \<open>s.split()\<close> cuts at
  runs of white space and returns no empty word; for the characters below 256 white
  space is 9 to 13, 28 to 32, 133 and 160. A string is a list of characters.
\<close>

definition py_index :: "'a list \<Rightarrow> int \<Rightarrow> exn + 'a" where
  "py_index xs i =
     (if - int (length xs) \<le> i \<and> i < 0 then Inr (xs ! nat (i + int (length xs)))
      else if 0 \<le> i \<and> i < int (length xs) then Inr (xs ! nat i)
      else Inl IndexError)"

fun str_join :: "string \<Rightarrow> string list \<Rightarrow> string" where
  "str_join sep [] = []"
| "str_join sep [w] = w"
| "str_join sep (w # v # ws) = w @ sep @ str_join sep (v # ws)"

text \<open>The fields of a string between the separator characters, empty fields included.\<close>

fun split_where :: "(char \<Rightarrow> bool) \<Rightarrow> string \<Rightarrow> string list" where
  "split_where sep [] = [[]]"
| "split_where sep (c # cs) =
     (if sep c then [] # split_where sep cs
      else (case split_where sep cs of
              [] \<Rightarrow> [[c]]
            | w # ws \<Rightarrow> (c # w) # ws))"


definition py_isspace :: "char \<Rightarrow> bool" where
  "py_isspace c =
     (let n = (of_char c :: nat)
      in (9 \<le> n \<and> n \<le> 13) \<or> (28 \<le> n \<and> n \<le> 32) \<or> n = 133 \<or> n = 160)"

definition py_split :: "string \<Rightarrow> string list" where
  "py_split s = filter (\<lambda>w. w \<noteq> []) (split_where py_isspace s)"

text \<open>Decimal numerals: digits, with at most one point that has digits on both sides.\<close>

definition is_digit :: "char \<Rightarrow> bool" where
  "is_digit c = (let n = (of_char c :: nat) in 48 \<le> n \<and> n \<le> 57)"

definition digits_value :: "string \<Rightarrow> nat" where
  "digits_value ds = foldl (\<lambda>n c. 10 * n + (of_char c - 48)) 0 ds"

definition is_digits :: "string \<Rightarrow> bool" where
  "is_digits ds = (ds \<noteq> [] \<and> list_all is_digit ds)"

definition parse_decimal :: "string \<Rightarrow> rat option" where
  "parse_decimal s =
     (case split_where (\<lambda>c. c = CHR ''.'') s of
        [a] \<Rightarrow> if is_digits a then Some (of_nat (digits_value a)) else None
      | [a, b] \<Rightarrow>
          if is_digits a \<and> is_digits b
          then Some (of_nat (digits_value a) + of_nat (digits_value b) / 10 ^ length b)
          else None
      | _ \<Rightarrow> None)"


section \<open>The cells of the notebooks\<close>

text \<open>
  A notebook is a list of cells; running it executes its code cells, in order, and
  nothing else. Each code cell is given here as the list of its source lines, under the
  position of the cell in its notebook (counted from 0, markdown cells included). A cell
  that starts with \<open>%%writefile\<close> writes its remaining lines to the file it names.
\<close>

subsection \<open>pipelines\_custom\_training.ipynb\<close>






















subsection \<open>explainable\_text\_classification.ipynb\<close>

























subsection \<open>fairness\_tfdv\_tfma.ipynb\<close>
























subsection \<open>Reading the lines of a cell\<close>


























section \<open>pipelines\_custom\_training.ipynb: the training script train.py\<close>

subsection \<open>The external libraries\<close>

text \<open>
  The BigQuery and Cloud Storage clients, scikit-learn and joblib are external: each of
  their calls is a parameter that answers with a value or an exception. A data frame is
  column oriented, as in pandas: a number of rows and a list of named columns.
\<close>

record 'v dataframe =
  n_rows :: nat
  cols :: "(string \<times> 'v list) list"

record ('t, 'r, 'v) bigquery =
  from_string :: "string \<Rightarrow> exn + 't"
  list_rows :: "'t \<Rightarrow> exn + 'r"
  to_dataframe :: "'r \<Rightarrow> bool \<Rightarrow> exn + 'v dataframe"

record ('t, 'r, 'v, 'm, 's, 'b) platform = "('t, 'r, 'v) bigquery" +
  bigquery_client :: "exn + unit"
  storage_client :: "exn + unit"
  fit :: "'v list list \<Rightarrow> 'v list \<Rightarrow> exn + 'm"
  score :: "'m \<Rightarrow> 'v list list \<Rightarrow> 'v list \<Rightarrow> exn + 's"
  dump :: "'m \<Rightarrow> string \<Rightarrow> exn + unit"
  get_bucket :: "string \<Rightarrow> exn + unit"
  blob_from_string :: "string \<Rightarrow> exn + 'b"
  upload_from_filename :: "'b \<Rightarrow> string \<Rightarrow> exn + unit"

datatype ('t, 'r, 'v, 'm, 's, 'b) train_call =
    BigqueryClient
  | StorageClient
  | Environ string
  | FromString string
  | ListRows 't
  | ToDataframe 'r bool
  | Pop string
  | Fit "'v list list" "'v list"
  | Score 'm "'v list list" "'v list"
  | Print 's
  | Dump 'm string
  | GetBucket string
  | BlobFromString string
  | UploadFromFilename 'b string

subsection \<open>download\_table\<close>

text \<open>
  \<^verbatim>\<open>
  def download_table(bq_table_uri: str):
      prefix = "bq://"
      if bq_table_uri.startswith(prefix):
          bq_table_uri = bq_table_uri[len(prefix):]

      table = bigquery.TableReference.from_string(bq_table_uri)
      rows = bqclient.list_rows(
          table,
      )
      return rows.to_dataframe(create_bqstorage_client=False)
  \<close>
  \<open>table_uri\<close> is the value of the local variable \<open>bq_table_uri\<close> when
  \<open>from_string\<close> is called.
\<close>

definition table_uri :: "string \<Rightarrow> string" where
  "table_uri bq_table_uri =
     (let pfx = ''bq://''
      in if prefix pfx bq_table_uri then drop (length pfx) bq_table_uri else bq_table_uri)"

definition download_table ::
  "('t, 'r, 'v, 'z) bigquery_scheme \<Rightarrow> string \<Rightarrow>
     (('t, 'r, 'v, 'm, 's, 'b) train_call, 'v dataframe) prog" where
  "download_table bq bq_table_uri =
     then_do (call (FromString (table_uri bq_table_uri)) (from_string bq (table_uri bq_table_uri)))
       (\<lambda>table.
     then_do (call (ListRows table) (list_rows bq table))
       (\<lambda>rows.
     call (ToDataframe rows False) (to_dataframe bq rows False)))"

text \<open>The arguments of the \<open>from_string\<close> calls of a trace, in order.\<close>

fun from_string_args :: "('t, 'r, 'v, 'm, 's, 'b) train_call trace \<Rightarrow> string list" where
  "from_string_args [] = []"
| "from_string_args ((FromString s, _) # cs) = s # from_string_args cs"
| "from_string_args (_ # cs) = from_string_args cs"

subsection \<open>The script\<close>

text \<open>
  \<^verbatim>\<open>
  bqclient = bigquery.Client()
  storage_client = storage.Client()
  ...
  training_data_uri = os.environ["AIP_TRAINING_DATA_URI"]
  test_data_uri = os.environ["AIP_TEST_DATA_URI"]

  df = download_table(training_data_uri)
  test_df = download_table(test_data_uri)
  labels = df.pop("Class").tolist()
  data = df.values.tolist()
  test_labels = test_df.pop("Class").tolist()
  test_data = test_df.values.tolist()

  skmodel = DecisionTreeClassifier()
  skmodel.fit(data, labels)
  score = skmodel.score(test_data, test_labels)
  print('accuracy is:',score)

  dump(skmodel, "model.joblib")

  bucket = storage_client.get_bucket("YOUR_GCS_BUCKET")
  model_directory = os.environ["AIP_MODEL_DIR"]
  storage_path = os.path.join(model_directory, "model.joblib")
  blob = storage.blob.Blob.from_string(storage_path, client=storage_client)
  blob.upload_from_filename("model.joblib")
  \<close>
  \<open>os.environ[k]\<close> raises KeyError on a missing key. \<open>df.pop(c)\<close> removes the
  column \<open>c\<close> and returns it, and raises KeyError when there is none (column names
  are unique, as they are in a BigQuery table).
  \<open>df.values.tolist()\<close> is the list of rows. The bucket name replaces
  \<open>YOUR_GCS_BUCKET\<close> in a later cell (\<open>sed\<close>), so it is a parameter.
\<close>

definition os_environ :: "(string \<rightharpoonup> string) \<Rightarrow> string \<Rightarrow> exn + string" where
  "os_environ environ k = (case environ k of None \<Rightarrow> Inl (KeyError k) | Some v \<Rightarrow> Inr v)"

definition df_pop :: "string \<Rightarrow> 'v dataframe \<Rightarrow> exn + ('v list \<times> 'v dataframe)" where
  "df_pop c df =
     (case map_of (cols df) c of
        None \<Rightarrow> Inl (KeyError c)
      | Some column \<Rightarrow> Inr (column, df\<lparr>cols := AList.delete c (cols df)\<rparr>))"

definition df_values :: "'v dataframe \<Rightarrow> 'v list list" where
  "df_values df =
     (if cols df = [] then replicate (n_rows df) [] else transpose (map snd (cols df)))"

text \<open>\<open>os.path.join\<close> of a directory and a relative file name (POSIX).\<close>

definition os_path_join :: "string \<Rightarrow> string \<Rightarrow> string" where
  "os_path_join a b = (if a = [] \<or> last a = CHR ''/'' then a @ b else a @ ''/'' @ b)"

definition train_py ::
  "('t, 'r, 'v, 'm, 's, 'b) platform \<Rightarrow> string \<Rightarrow> (string \<rightharpoonup> string) \<Rightarrow>
     (('t, 'r, 'v, 'm, 's, 'b) train_call, unit) prog" where
  "train_py P gcs_bucket environ =
     then_do (call BigqueryClient (bigquery_client P)) (\<lambda>bqclient.
     then_do (call StorageClient (storage_client P)) (\<lambda>storage_client.
     then_do (call (Environ ''AIP_TRAINING_DATA_URI'') (os_environ environ ''AIP_TRAINING_DATA_URI''))
       (\<lambda>training_data_uri.
     then_do (call (Environ ''AIP_TEST_DATA_URI'') (os_environ environ ''AIP_TEST_DATA_URI''))
       (\<lambda>test_data_uri.
     then_do (download_table P training_data_uri) (\<lambda>df0.
     then_do (download_table P test_data_uri) (\<lambda>test_df0.
     then_do (call (Pop ''Class'') (df_pop ''Class'' df0)) (\<lambda>(labels, df).
     then_do (call (Pop ''Class'') (df_pop ''Class'' test_df0)) (\<lambda>(test_labels, test_df).
     then_do (call (Fit (df_values df) labels) (fit P (df_values df) labels)) (\<lambda>skmodel.
     then_do (call (Score skmodel (df_values test_df) test_labels)
                (score P skmodel (df_values test_df) test_labels)) (\<lambda>sc.
     then_do (call (Print sc) (Inr ())) (\<lambda>_.
     then_do (call (Dump skmodel ''model.joblib'') (dump P skmodel ''model.joblib'')) (\<lambda>_.
     then_do (call (GetBucket gcs_bucket) (get_bucket P gcs_bucket)) (\<lambda>bucket.
     then_do (call (Environ ''AIP_MODEL_DIR'') (os_environ environ ''AIP_MODEL_DIR''))
       (\<lambda>model_directory.
     then_do (call (BlobFromString (os_path_join model_directory ''model.joblib''))
                (blob_from_string P (os_path_join model_directory ''model.joblib''))) (\<lambda>blob.
     call (UploadFromFilename blob ''model.joblib'')
       (upload_from_filename P blob ''model.joblib''))))))))))))))))"



section \<open>pipelines\_custom\_training.ipynb: the pipeline definition\<close>

text \<open>
  \<^verbatim>\<open>
  @dsl.pipeline(name="automl-beans-custom",
                pipeline_root=PIPELINE_ROOT)
  def my_pipeline(
      bq_source: str = "bq://specialized-training-resources.beans.beans1",
      bucket: str = BUCKET_NAME,
      project: str = PROJECT_ID,
      gcp_region: str = REGION,
      bq_dest: str = "",
      container_uri: str = "",
      batch_destination: str = ""
  ):
      dataset_create_op = TabularDatasetCreateOp(
          display_name="tabular-beans-dataset",
          bq_source=bq_source,
          project=project,
          location=gcp_region
      )

      training_op = CustomContainerTrainingJobRunOp(
          display_name="pipeline-beans-custom-train",
          container_uri=container_uri,
          project=project,
          location=gcp_region,
          dataset=dataset_create_op.outputs["dataset"],
          staging_bucket=bucket,
          training_fraction_split=0.8,
          validation_fraction_split=0.1,
          test_fraction_split=0.1,
          bigquery_destination=bq_dest,
          model_serving_container_image_uri="us-docker.pkg.dev/vertex-ai/prediction/sklearn-cpu.1-2:latest",
          model_display_name="scikit-beans-model",
          machine_type="e2-standard-4",
      )

      batch_predict_op = ModelBatchPredictOp(
          project=project,
          location=gcp_region,
          job_display_name="beans-batch-predict",
          model=training_op.outputs["model"],
          gcs_source_uris=[f"{BUCKET_NAME}/batch_examples.csv"],
          instances_format="csv",
          gcs_destination_output_uri_prefix=batch_destination,
          machine_type="n1-standard-2",
          starting_replica_count=1,
          max_replica_count=1
      )
  \<close>
  The function builds component operations; it runs none of them. An operation is the
  component it instantiates, its position among the operations built so far, and its
  keyword arguments. An argument is a constant, a parameter's value, or an output of an
  operation built earlier (\<open>op.outputs[key]\<close>). The pipeline is the list of the
  operations in the order they are built.
\<close>

datatype component =
    TabularDatasetCreateOp
  | CustomContainerTrainingJobRunOp
  | ModelBatchPredictOp

datatype argument =
    Text string
  | Number rat
  | Count int
  | Texts "string list"
  | TaskOutput nat string

record component_op =
  task :: nat
  component :: component
  arguments :: "(string \<times> argument) list"

record pipeline_params =
  bq_source :: string
  bucket :: string
  project :: string
  gcp_region :: string
  bq_dest :: string
  container_uri :: string
  batch_destination :: string

definition outputs :: "component_op \<Rightarrow> string \<Rightarrow> argument" where
  "outputs operation key = TaskOutput (task operation) key"

definition my_pipeline :: "string \<Rightarrow> pipeline_params \<Rightarrow> component_op list" where
  "my_pipeline BUCKET_NAME p =
     (let dataset_create_op =
            \<lparr>task = 0, component = TabularDatasetCreateOp,
             arguments =
               [(''display_name'', Text ''tabular-beans-dataset''),
                (''bq_source'', Text (bq_source p)),
                (''project'', Text (project p)),
                (''location'', Text (gcp_region p))]\<rparr>;
          training_op =
            \<lparr>task = 1, component = CustomContainerTrainingJobRunOp,
             arguments =
               [(''display_name'', Text ''pipeline-beans-custom-train''),
                (''container_uri'', Text (container_uri p)),
                (''project'', Text (project p)),
                (''location'', Text (gcp_region p)),
                (''dataset'', outputs dataset_create_op ''dataset''),
                (''staging_bucket'', Text (bucket p)),
                (''training_fraction_split'', Number (8 / 10)),
                (''validation_fraction_split'', Number (1 / 10)),
                (''test_fraction_split'', Number (1 / 10)),
                (''bigquery_destination'', Text (bq_dest p)),
                (''model_serving_container_image_uri'',
                   Text ''us-docker.pkg.dev/vertex-ai/prediction/sklearn-cpu.1-2:latest''),
                (''model_display_name'', Text ''scikit-beans-model''),
                (''machine_type'', Text ''e2-standard-4'')]\<rparr>;
          batch_predict_op =
            \<lparr>task = 2, component = ModelBatchPredictOp,
             arguments =
               [(''project'', Text (project p)),
                (''location'', Text (gcp_region p)),
                (''job_display_name'', Text ''beans-batch-predict''),
                (''model'', outputs training_op ''model''),
                (''gcs_source_uris'', Texts [BUCKET_NAME @ ''/batch_examples.csv'']),
                (''instances_format'', Text ''csv''),
                (''gcs_destination_output_uri_prefix'', Text (batch_destination p)),
                (''machine_type'', Text ''n1-standard-2''),
                (''starting_replica_count'', Count 1),
                (''max_replica_count'', Count 1)]\<rparr>
      in [dataset_create_op, training_op, batch_predict_op])"

text \<open>The operations whose outputs an operation consumes.\<close>

definition upstream :: "component_op \<Rightarrow> nat list" where
  "upstream operation =
     concat (map (\<lambda>(key, a). case a of TaskOutput t out \<Rightarrow> [t] | _ \<Rightarrow> []) (arguments operation))"

section \<open>pipelines\_custom\_training.ipynb: the batch prediction examples\<close>





section \<open>explainable\_text\_classification.ipynb\<close>

subsection \<open>send\_explanation\_request\<close>

text \<open>
  \<^verbatim>\<open>
  def send_explanation_request(endpoint, review=0):
      example = x_test[review].tolist()
      example_label = y_test[review]
      result = endpoint.explain([example]) # Ask Vertex AI to explain

      prediction = result.predictions[0][0] # Model's prediction
      explanations = result.explanations[0] # Explanations

      return example, example_label, prediction, explanations
  \<close>
  \<open>x_test\<close> and \<open>y_test\<close> are globals of the notebook: the padded token sequences
  and their labels. The endpoint is external: \<open>explain\<close> answers a list of instances
  with predictions and explanations, or raises.
\<close>

record ('p, 'e) explain_response =
  predictions :: "'p list list"
  explanations :: "'e list"

record ('p, 'e) endpoint =
  explain :: "int list list \<Rightarrow> exn + ('p, 'e) explain_response"

datatype xai_call =
    Subscript string int
  | Explain "int list list"

definition send_explanation_request ::
  "int list list \<Rightarrow> 'l list \<Rightarrow> ('p, 'e) endpoint \<Rightarrow> int \<Rightarrow>
     (xai_call, int list \<times> 'l \<times> 'p \<times> 'e) prog" where
  "send_explanation_request x_test y_test endpoint review =
     then_do (call (Subscript ''x_test'' review) (py_index x_test review)) (\<lambda>example.
     then_do (call (Subscript ''y_test'' review) (py_index y_test review)) (\<lambda>example_label.
     then_do (call (Explain [example]) (explain endpoint [example])) (\<lambda>result.
     then_do (call (Subscript ''result.predictions'' 0) (py_index (predictions result) 0))
       (\<lambda>predictions0.
     then_do (call (Subscript ''result.predictions[0]'' 0) (py_index predictions0 0))
       (\<lambda>prediction.
     then_do (call (Subscript ''result.explanations'' 0) (py_index (explanations result) 0))
       (\<lambda>explanations0.
     ret (example, example_label, prediction, explanations0)))))))"

text \<open>The requests sent to \<open>endpoint.explain\<close> in a trace, in order.\<close>

fun explain_requests :: "xai_call trace \<Rightarrow> int list list list" where
  "explain_requests [] = []"
| "explain_requests ((Explain instances, _) # cs) = instances # explain_requests cs"
| "explain_requests (_ # cs) = explain_requests cs"

subsection \<open>decode\_sentence\<close>

text \<open>
  \<^verbatim>\<open>
  def decode_sentence(x, index=reverse_index):
      # the `-3` offset is due to the special tokens used by keras
      return " ".join([index.get(i - 3, "UNK") for i in x])
  \<close>
\<close>

definition decode_word :: "(int \<rightharpoonup> string) \<Rightarrow> int \<Rightarrow> string" where
  "decode_word index i = (case index (i - 3) of None \<Rightarrow> ''UNK'' | Some w \<Rightarrow> w)"

definition decode_sentence :: "int list \<Rightarrow> (int \<rightharpoonup> string) \<Rightarrow> string" where
  "decode_sentence x index = str_join '' '' (map (decode_word index) x)"

subsection \<open>highlight, colorize, display\_highlights\<close>

text \<open>
  \<^verbatim>\<open>
  def highlight(string, color="white"):
      return f"<mark style=background-color:{color}>{string} </mark>"

  def colorize(attrs, cmap="PiYG"):
      import matplotlib as mpl

      cmap_bound = np.abs(attrs).max()
      norm = mpl.colors.Normalize(vmin=-cmap_bound, vmax=cmap_bound)
      cmap = mpl.cm.get_cmap(cmap)

      # now compute hex values of colors
      colors = list(map(lambda x: mpl.colors.rgb2hex(cmap(norm(x))), attrs))
      return colors

  def display_highlights(example, example_label, prediction, attributions):
      words = decode_sentence(example).split()
      colors = colorize(attributions)

      print(f"Prediction:[{prediction}] Actual:[{example_label}]\n")

      display(HTML("".join(list(map(highlight, words, colors)))))
      return words
  \<close>
  matplotlib is external: \<open>Normalize vmin vmax\<close> is the normalisation it builds,
  \<open>get_cmap\<close> looks a colour map up by name (and raises on an unknown name), and
  \<open>rgb2hex\<close> prints a colour. \<open>np.abs(attrs).max()\<close> raises ValueError on an empty
  sequence. Numbers are elements of an ordered field. \<open>display_highlights\<close> returns
  the text it prints and the HTML it displays with its result; \<open>str_p\<close> and
  \<open>str_l\<close> are Python's formatting of the prediction and of the label. The text
  printed ends with two newlines: the one of the format string and the one \<open>print\<close>
  adds. \<open>map(highlight, words, colors)\<close> stops at the shorter of its two lists.
\<close>

definition highlight :: "string \<Rightarrow> string \<Rightarrow> string" where
  "highlight string color = ''<mark style=background-color:'' @ color @ ''>'' @ string @ '' </mark>''"

record ('a, 'c) matplotlib =
  Normalize :: "'a \<Rightarrow> 'a \<Rightarrow> 'a \<Rightarrow> 'a"
  get_cmap :: "string \<Rightarrow> exn + ('a \<Rightarrow> 'c)"
  rgb2hex :: "'c \<Rightarrow> string"

definition abs_max :: "'a::linordered_field list \<Rightarrow> exn + 'a" where
  "abs_max attrs =
     (case map abs attrs of
        [] \<Rightarrow> Inl ValueError
      | a # as \<Rightarrow> Inr (fold max as a))"

definition colorize ::
  "('a::linordered_field, 'c) matplotlib \<Rightarrow> 'a list \<Rightarrow> string \<Rightarrow> exn + string list" where
  "colorize mpl attrs cmap =
     (case abs_max attrs of
        Inl e \<Rightarrow> Inl e
      | Inr cmap_bound \<Rightarrow>
          (let norm = Normalize mpl (- cmap_bound) cmap_bound
           in case get_cmap mpl cmap of
                Inl e \<Rightarrow> Inl e
              | Inr cm \<Rightarrow> Inr (map (\<lambda>x. rgb2hex mpl (cm (norm x))) attrs)))"

definition display_highlights ::
  "('a::linordered_field, 'c) matplotlib \<Rightarrow> (int \<rightharpoonup> string) \<Rightarrow> ('p \<Rightarrow> string) \<Rightarrow> ('l \<Rightarrow> string) \<Rightarrow>
     int list \<Rightarrow> 'l \<Rightarrow> 'p \<Rightarrow> 'a list \<Rightarrow> exn + (string \<times> string \<times> string list)" where
  "display_highlights mpl reverse_index str_p str_l example example_label prediction attributions =
     (let words = py_split (decode_sentence example reverse_index)
      in case colorize mpl attributions ''PiYG'' of
           Inl e \<Rightarrow> Inl e
         | Inr colors \<Rightarrow>
             Inr (''Prediction:['' @ str_p prediction @ ''] Actual:['' @ str_l example_label @ '']''
                    @ [CHR 0x0A, CHR 0x0A],
                  concat (map (\<lambda>(w, c). highlight w c) (zip words colors)),
                  words))"

subsection \<open>The feature attribution bar plot\<close>

text \<open>
  \<^verbatim>\<open>
  importance_dict = {k:v for k, v in zip(words, attributions)}

  sorted_feature_names = sorted(importance_dict, key=importance_dict.get)

  sorted_attr_values = [importance_dict[key] for key in sorted_feature_names]
  num_features = len(sorted_feature_names)

  if num_features > 0:
      x_pos = list(range(num_features))
      plt.figure(figsize=(8,11))
      plt.barh(x_pos, sorted_attr_values)
      plt.yticks(x_pos, sorted_feature_names)
      ...
  \<close>
  A Python dictionary keeps its keys in the order of their first insertion, and a later
  insertion of a key replaces its value in place: an association list with
  \<open>AList.update\<close>. \<open>dict.get\<close> answers \<open>None\<close> for a missing key and
  \<open>d[key]\<close> raises KeyError; \<open>sorted\<close> is stable. The cell's result is what it hands
  to \<open>plt.barh\<close> and \<open>plt.yticks\<close>: the bar positions, the bar lengths and the tick
  labels, and nothing when there is no feature.
\<close>

definition importance_dict :: "string list \<Rightarrow> 'v list \<Rightarrow> (string \<times> 'v) list" where
  "importance_dict words attributions =
     foldl (\<lambda>d (k, v). AList.update k v d) [] (zip words attributions)"

definition dict_item :: "(string \<times> 'v) list \<Rightarrow> string \<Rightarrow> exn + 'v" where
  "dict_item d key = (case map_of d key of None \<Rightarrow> Inl (KeyError key) | Some v \<Rightarrow> Inr v)"

fun map_raising :: "('a \<Rightarrow> exn + 'b) \<Rightarrow> 'a list \<Rightarrow> exn + 'b list" where
  "map_raising f [] = Inr []"
| "map_raising f (x # xs) =
     (case f x of
        Inl e \<Rightarrow> Inl e
      | Inr y \<Rightarrow> (case map_raising f xs of Inl e \<Rightarrow> Inl e | Inr ys \<Rightarrow> Inr (y # ys)))"

definition sorted_feature_names :: "(string \<times> 'v::linorder) list \<Rightarrow> string list" where
  "sorted_feature_names d = sort_key (map_of d) (map fst d)"

definition feature_attribution_plot ::
  "string list \<Rightarrow> 'v::linorder list \<Rightarrow> exn + (nat list \<times> 'v list \<times> string list) option" where
  "feature_attribution_plot words attributions =
     (let d = importance_dict words attributions;
          names = sorted_feature_names d
      in case map_raising (dict_item d) names of
           Inl e \<Rightarrow> Inl e
         | Inr sorted_attr_values \<Rightarrow>
             (let num_features = length names
              in if num_features > 0
                 then Inr (Some ([0..<num_features], sorted_attr_values, names))
                 else Inr None))"

section \<open>fairness\_tfdv\_tfma.ipynb: the evaluation configuration\<close>

text \<open>
  \<^verbatim>\<open>
  eval_config = text_format.Parse("""
      model_specs {
        label_key: "toxicity"
      }
      metrics_specs {
        metrics {
          class_name: "FairnessIndicators"
          config: '{ "thresholds": [0.1, 0.3, 0.5, 0.7, 0.9] }'
        }
      }
      slicing_specs {}  # overall slice
      slicing_specs {feature_keys: ["gender"]}  # we can slice by any feature

      options {
          compute_confidence_intervals { value: False }  # we can optionally compute CIs for a more detailed analysis
      }
  """, tfma.EvalConfig())
  \<close>
  The message the text denotes, field by field; repeated fields are lists. The
  configuration of a metric is JSON text: \<open>thresholds_of\<close> reads the decimal numerals
  between its square brackets.
\<close>

record ModelSpec =
  label_key :: string

record MetricConfig =
  class_name :: string
  config :: string

record MetricsSpec =
  metrics :: "MetricConfig list"

record SlicingSpec =
  feature_keys :: "string list"

record Options =
  compute_confidence_intervals :: bool

record EvalConfig =
  model_specs :: "ModelSpec list"
  metrics_specs :: "MetricsSpec list"
  slicing_specs :: "SlicingSpec list"
  options :: Options

definition eval_config :: EvalConfig where
  \<open>eval_config =
     \<lparr>model_specs = [\<lparr>label_key = ''toxicity''\<rparr>],
      metrics_specs =
        [\<lparr>metrics =
            [\<lparr>class_name = ''FairnessIndicators'',
              config = ''{ "thresholds": [0.1, 0.3, 0.5, 0.7, 0.9] }''\<rparr>]\<rparr>],
      slicing_specs = [\<lparr>feature_keys = []\<rparr>, \<lparr>feature_keys = [''gender'']\<rparr>],
      options = \<lparr>compute_confidence_intervals = False\<rparr>\<rparr>\<close>

definition thresholds_of :: "string \<Rightarrow> rat option list" where
  "thresholds_of json =
     map parse_decimal
       (split_where (\<lambda>c. c = CHR '','')
          (filter (\<lambda>c. c \<noteq> CHR '' '')
             (takeWhile (\<lambda>c. c \<noteq> CHR '']'') (drop 1 (dropWhile (\<lambda>c. c \<noteq> CHR ''['') json)))))"

text \<open>The metrics of a configuration, and the thresholds of those with a given name.\<close>

definition all_metrics :: "EvalConfig \<Rightarrow> MetricConfig list" where
  "all_metrics cfg = concat (map metrics (metrics_specs cfg))"

definition metric_thresholds :: "EvalConfig \<Rightarrow> string \<Rightarrow> rat option list list" where
  "metric_thresholds cfg name =
     map (\<lambda>m. thresholds_of (config m)) (filter (\<lambda>m. class_name m = name) (all_metrics cfg))"

section \<open>Properties\<close>

subsection \<open>Fail-stop programs\<close>

lemma succeeded_append: "succeeded (xs @ ys) \<longleftrightarrow> succeeded xs \<and> succeeded ys"
  by (simp add: succeeded_def)

lemma fail_stop_call: "fail_stop (call c r)"
  unfolding fail_stop_def
proof
  fix tr :: "'a trace"
  show "\<exists>new. snd (call c r tr) = tr @ new \<and>
          (case fst (call c r tr) of
             Inr v \<Rightarrow> succeeded new
           | Inl e \<Rightarrow> new \<noteq> [] \<and> succeeded (butlast new) \<and> snd (last new) = Some e)"
    by (rule exI [of _ "[(c, raised r)]"])
       (simp add: call_def raised_def succeeded_def split: sum.splits)
qed

lemma fail_stop_ret: "fail_stop (ret v)"
  unfolding fail_stop_def
proof
  fix tr :: "'a trace"
  show "\<exists>new. snd (ret v tr) = tr @ new \<and>
          (case fst (ret v tr) of
             Inr v \<Rightarrow> succeeded new
           | Inl e \<Rightarrow> new \<noteq> [] \<and> succeeded (butlast new) \<and> snd (last new) = Some e)"
    by (rule exI [of _ "[]"]) (simp add: ret_def succeeded_def)
qed

lemma fail_stop_then_do:
  assumes m: "fail_stop m" and f: "\<And>v. fail_stop (f v)"
  shows "fail_stop (then_do m f)"
  unfolding fail_stop_def
proof
  fix tr
  from m obtain n1 where n1: "snd (m tr) = tr @ n1"
    and r1: "case fst (m tr) of Inr v \<Rightarrow> succeeded n1
             | Inl e \<Rightarrow> n1 \<noteq> [] \<and> succeeded (butlast n1) \<and> snd (last n1) = Some e"
    unfolding fail_stop_def by blast
  show "\<exists>new. snd (then_do m f tr) = tr @ new \<and>
          (case fst (then_do m f tr) of
             Inr v \<Rightarrow> succeeded new
           | Inl e \<Rightarrow> new \<noteq> [] \<and> succeeded (butlast new) \<and> snd (last new) = Some e)"
  proof (cases "fst (m tr)")
    case (Inl e)
    then have "then_do m f tr = (Inl e, tr @ n1)"
      using n1 by (cases "m tr") (simp add: then_do_def)
    with r1 Inl show ?thesis by simp
  next
    case (Inr v)
    then have eq: "then_do m f tr = f v (tr @ n1)"
      using n1 by (cases "m tr") (simp add: then_do_def)
    from f [of v] obtain n2 where n2: "snd (f v (tr @ n1)) = (tr @ n1) @ n2"
      and r2: "case fst (f v (tr @ n1)) of Inr w \<Rightarrow> succeeded n2
               | Inl e \<Rightarrow> n2 \<noteq> [] \<and> succeeded (butlast n2) \<and> snd (last n2) = Some e"
      unfolding fail_stop_def by blast
    from r1 Inr have s1: "succeeded n1" by simp
    show ?thesis
    proof (rule exI [of _ "n1 @ n2"], cases "fst (f v (tr @ n1))")
      case (Inl e)
      with r2 have "n2 \<noteq> []" "succeeded (butlast n2)" "snd (last n2) = Some e" by simp_all
      with s1 Inl n2 eq show "snd (then_do m f tr) = tr @ n1 @ n2 \<and>
          (case fst (then_do m f tr) of
             Inr v \<Rightarrow> succeeded (n1 @ n2)
           | Inl e \<Rightarrow> n1 @ n2 \<noteq> [] \<and> succeeded (butlast (n1 @ n2)) \<and> snd (last (n1 @ n2)) = Some e)"
        by (simp add: butlast_append succeeded_append)
    next
      case (Inr w)
      with r2 have "succeeded n2" by simp
      with s1 Inr n2 eq show "snd (then_do m f tr) = tr @ n1 @ n2 \<and>
          (case fst (then_do m f tr) of
             Inr v \<Rightarrow> succeeded (n1 @ n2)
           | Inl e \<Rightarrow> n1 @ n2 \<noteq> [] \<and> succeeded (butlast (n1 @ n2)) \<and> snd (last (n1 @ n2)) = Some e)"
        by (simp add: succeeded_append)
    qed
  qed
qed

lemma fail_stop_download_table: "fail_stop (download_table bq s)"
  unfolding download_table_def
  by (intro fail_stop_then_do fail_stop_call)

lemma fail_stop_train_py: "fail_stop (train_py P b environ)"
  unfolding train_py_def
  by (intro fail_stop_then_do fail_stop_call fail_stop_download_table)
     (simp_all add: split_def fail_stop_then_do fail_stop_call)

text \<open>A program that goes on after a call has raised is not fail-stop.\<close>

lemma swallowed_exception_not_fail_stop:
  "\<not> fail_stop (\<lambda>tr. (Inr v, snd (call c (Inl e :: exn + 'a) tr)))"
proof
  assume "fail_stop (\<lambda>tr. (Inr v, snd (call c (Inl e :: exn + 'a) tr)))"
  then have "\<exists>new. [(c, Some e)] = new \<and> succeeded new"
    unfolding fail_stop_def call_def raised_def
    by (drule_tac x = "[]" in spec) simp
  then show False by (simp add: succeeded_def)
qed

subsection \<open>Strings\<close>







lemma then_do_call:
  "then_do (call c r) f tr =
     (case r of Inl e \<Rightarrow> (Inl e, tr @ [(c, Some e)]) | Inr v \<Rightarrow> f v (tr @ [(c, None)]))"
  by (simp add: then_do_def call_def raised_def split: sum.splits)

subsection \<open>download\_table\<close>

lemma from_string_args_append:
  "from_string_args (xs @ ys) = from_string_args xs @ from_string_args ys"
  by (induction xs rule: from_string_args.induct) simp_all

lemma table_uri_cases:
  "table_uri s = (if prefix ''bq://'' s then drop 5 s else s)"
  by (simp add: table_uri_def eval_nat_numeral)

lemma download_table_from_string_args:
  "from_string_args (snd (download_table bq s tr)) = from_string_args tr @ [table_uri s]"
  by (simp add: download_table_def then_do_def call_def from_string_args_append
      split: sum.splits prod.splits)



subsection \<open>train.py\<close>










subsection \<open>send\_explanation\_request\<close>

lemma explain_requests_append:
  "explain_requests (xs @ ys) = explain_requests xs @ explain_requests ys"
  by (induction xs rule: explain_requests.induct) simp_all

lemma py_index_valid:
  assumes "- int (length xs) \<le> i" and "i < int (length xs)"
  shows "py_index xs i = Inr (xs ! nat (i mod int (length xs)))"
proof (cases "i < 0")
  case True
  have "i mod int (length xs) = (i + int (length xs)) mod int (length xs)"
    by simp
  also have "\<dots> = i + int (length xs)"
    using True assms by (intro mod_pos_pos_trivial) simp_all
  finally show ?thesis
    using True assms by (simp add: py_index_def)
next
  case False
  then have "i mod int (length xs) = i"
    using assms by (intro mod_pos_pos_trivial) simp_all
  then show ?thesis
    using False assms by (simp add: py_index_def)
qed

lemma fail_stop_send_explanation_request:
  "fail_stop (send_explanation_request x_test y_test endpoint review)"
  unfolding send_explanation_request_def
  by (intro fail_stop_then_do fail_stop_call fail_stop_ret)


subsection \<open>The importance dictionary\<close>

lemma map_of_foldl_update:
  "map_of (foldl (\<lambda>d (k, v). AList.update k v d) d kvs) = map_of (rev kvs @ d)"
proof (induction kvs arbitrary: d)
  case Nil
  then show ?case by simp
next
  case (Cons kv kvs)
  obtain k v where kv: "kv = (k, v)" by (cases kv)
  show ?case
    by (simp add: kv Cons.IH update_conv' map_add_upd_left fun_eq_iff map_add_def split: option.splits)
qed

lemma distinct_foldl_update:
  "distinct (map fst d) \<Longrightarrow> distinct (map fst (foldl (\<lambda>d (k, v). AList.update k v d) d kvs))"
  by (induction kvs arbitrary: d) (auto simp: distinct_update)

lemma keys_foldl_update:
  "fst ` set (foldl (\<lambda>d (k, v). AList.update k v d) d kvs) = fst ` set d \<union> fst ` set kvs"
proof -
  have "fst ` set (foldl (\<lambda>d (k, v). AList.update k v d) d kvs) =
          dom (map_of (foldl (\<lambda>d (k, v). AList.update k v d) d kvs))"
    by (simp add: dom_map_of_conv_image_fst)
  also have "\<dots> = dom (map_of (rev kvs @ d))"
    by (simp only: map_of_foldl_update)
  also have "\<dots> = fst ` set d \<union> fst ` set kvs"
    by (simp add: dom_map_of_conv_image_fst image_Un Un_commute)
  finally show ?thesis .
qed

lemma map_of_rev_last:
  "i < length kvs \<Longrightarrow> (\<forall>j. i < j \<and> j < length kvs \<longrightarrow> fst (kvs ! j) \<noteq> fst (kvs ! i)) \<Longrightarrow>
     map_of (rev kvs) (fst (kvs ! i)) = Some (snd (kvs ! i))"
proof (induction kvs rule: rev_induct)
  case Nil
  then show ?case by simp
next
  case (snoc kv kvs)
  show ?case
  proof (cases "i = length kvs")
    case True
    then show ?thesis by (cases kv) simp
  next
    case False
    with snoc.prems have i: "i < length kvs" by simp
    from snoc.prems(2) i have ne: "fst kv \<noteq> fst (kvs ! i)"
      by (metis length_append_singleton lessI nth_append nth_append_length)
    have "\<forall>j. i < j \<and> j < length kvs \<longrightarrow> fst (kvs ! j) \<noteq> fst (kvs ! i)"
    proof (intro allI impI)
      fix j assume j: "i < j \<and> j < length kvs"
      with snoc.prems(2) [rule_format, of j] i show "fst (kvs ! j) \<noteq> fst (kvs ! i)"
        by (simp add: nth_append)
    qed
    with snoc.IH i have "map_of (rev kvs) (fst (kvs ! i)) = Some (snd (kvs ! i))" by simp
    with ne i show ?thesis by (cases kv) (auto simp: nth_append)
  qed
qed

lemma importance_dict_keys:
  "set (map fst (importance_dict words attributions)) =
     set (take (min (length words) (length attributions)) words)"
proof -
  have "fst ` set (zip words attributions) = set (map fst (zip words attributions))" by simp
  also have "\<dots> = set (take (min (length words) (length attributions)) words)"
    by (simp add: map_fst_zip_take)
  finally show ?thesis
    by (simp add: importance_dict_def keys_foldl_update)
qed

lemma importance_dict_distinct: "distinct (map fst (importance_dict words attributions))"
  by (simp add: importance_dict_def distinct_foldl_update)

lemma importance_dict_last:
  assumes "i < min (length words) (length attributions)"
      and "\<forall>j. i < j \<and> j < min (length words) (length attributions) \<longrightarrow> words ! j \<noteq> words ! i"
  shows "map_of (importance_dict words attributions) (words ! i) = Some (attributions ! i)"
proof -
  let ?kvs = "zip words attributions"
  have len: "length ?kvs = min (length words) (length attributions)" by simp
  have "map_of (rev ?kvs) (fst (?kvs ! i)) = Some (snd (?kvs ! i))"
  proof (rule map_of_rev_last)
    show "i < length ?kvs" using assms(1) by simp
    show "\<forall>j. i < j \<and> j < length ?kvs \<longrightarrow> fst (?kvs ! j) \<noteq> fst (?kvs ! i)"
      using assms by auto
  qed
  with assms(1) show ?thesis
    by (simp add: importance_dict_def map_of_foldl_update)
qed

lemma map_raising_dict_item:
  "set names \<subseteq> fst ` set d \<Longrightarrow>
     \<exists>vs. map_raising (dict_item d) names = Inr vs \<and> map (map_of d) names = map Some vs"
proof (induction names)
  case Nil
  then show ?case by simp
next
  case (Cons a names)
  then obtain vs where vs: "map_raising (dict_item d) names = Inr vs"
      "map (map_of d) names = map Some vs" by auto
  from Cons.prems obtain v where v: "map_of d a = Some v"
    by (metis list.set_intros(1) subsetD map_of_eq_None_iff not_Some_eq)
  then have "dict_item d a = Inr v"
    by (simp add: dict_item_def)
  then show ?case
    by (intro exI [of _ "v # vs"]) (simp add: vs v)
qed

lemma sorted_map_Some: "sorted (map Some vs) \<Longrightarrow> sorted vs"
  by (induction vs) auto

lemma last_occurrence:
  assumes "w \<in> set (take n words)"
  shows "\<exists>i < min (length words) n. words ! i = w \<and> (\<forall>j. i < j \<and> j < min (length words) n \<longrightarrow> words ! j \<noteq> w)"
proof -
  let ?m = "min (length words) n"
  let ?S = "{i. i < ?m \<and> words ! i = w}"
  from assms obtain i0 where "i0 < length (take n words)" "take n words ! i0 = w"
    by (auto simp: in_set_conv_nth)
  then have "i0 \<in> ?S" by simp
  then have ne: "?S \<noteq> {}" by blast
  have fin: "finite ?S" by simp
  let ?i = "Max ?S"
  from Max_in [OF fin ne] have i: "?i < ?m" "words ! ?i = w" by simp_all
  have "\<forall>j. ?i < j \<and> j < ?m \<longrightarrow> words ! j \<noteq> w"
  proof (intro allI impI notI)
    fix j assume j: "?i < j \<and> j < ?m" and "words ! j = w"
    then have "j \<in> ?S" by simp
    with fin have "j \<le> ?i" by (rule Max_ge)
    with j show False by simp
  qed
  with i show ?thesis by blast
qed

subsection \<open>decode\_sentence\<close>

lemma split_where_clean: "list_all (\<lambda>c. \<not> sep c) w \<Longrightarrow> split_where sep w = [w]"
  by (induction w) simp_all

lemma split_where_clean_sep:
  "list_all (\<lambda>c. \<not> sep c) w \<Longrightarrow> sep c \<Longrightarrow> split_where sep (w @ c # rest) = w # split_where sep rest"
  by (induction w) simp_all

lemma py_split_join:
  "list_all (\<lambda>w. w \<noteq> [] \<and> list_all (\<lambda>c. \<not> py_isspace c) w) ws \<Longrightarrow>
     py_split (str_join '' '' ws) = ws"
proof (induction "'' ''" ws rule: str_join.induct)
  case 1
  then show ?case by (simp add: py_split_def)
next
  case (2 w)
  then show ?case by (simp add: py_split_def split_where_clean)
next
  case (3 w v ws)
  have sp: "py_isspace (CHR '' '')" by (simp add: py_isspace_def)
  from 3 have "py_split (str_join '' '' (v # ws)) = v # ws" by simp
  with 3 sp show ?case
    by (simp add: py_split_def split_where_clean_sep)
qed

lemma decode_word_clean:
  assumes "\<forall>w. index (i - 3) = Some w \<longrightarrow> w \<noteq> [] \<and> list_all (\<lambda>c. \<not> py_isspace c) w"
  shows "decode_word index i \<noteq> [] \<and> list_all (\<lambda>c. \<not> py_isspace c) (decode_word index i)"
  using assms by (cases "index (i - 3)") (simp_all add: decode_word_def py_isspace_def)

lemma filter_isspace_join:
  "list_all (\<lambda>w. list_all (\<lambda>c. \<not> py_isspace c) w) ws \<Longrightarrow>
     filter py_isspace (str_join '' '' ws) = replicate (length ws - 1) (CHR '' '')"
proof (induction "'' ''" ws rule: str_join.induct)
  case 1
  then show ?case by simp
next
  case (2 w)
  then show ?case by (simp add: list_all_iff)
next
  case (3 w v ws)
  have sp: "py_isspace (CHR '' '')" by (simp add: py_isspace_def)
  from 3 have "filter py_isspace (str_join '' '' (v # ws)) = replicate (length (v # ws) - 1) (CHR '' '')"
    by simp
  moreover from 3 have "filter py_isspace w = []"
    by (simp add: list_all_iff)
  ultimately show ?case
    using sp by simp
qed

subsection \<open>colorize\<close>

lemma abs_max_Max:
  "attrs \<noteq> [] \<Longrightarrow> abs_max attrs = Inr (Max (abs ` set attrs))"
  by (cases attrs) (simp_all add: abs_max_def Max.set_eq_fold [symmetric])


lemma colorize_Inr:
  "abs_max attrs = Inr b \<Longrightarrow> get_cmap mpl cmap = Inr cm \<Longrightarrow>
     colorize mpl attrs cmap = Inr (map (\<lambda>x. rgb2hex mpl (cm (Normalize mpl (- b) b x))) attrs)"
  by (simp add: colorize_def)

subsection \<open>display\_highlights\<close>

lemma display_highlights_Inr:
  assumes "attributions \<noteq> []" and "get_cmap mpl ''PiYG'' = Inr cm"
  shows "display_highlights mpl index str_p str_l x example_label prediction attributions =
     Inr (''Prediction:['' @ str_p prediction @ ''] Actual:['' @ str_l example_label @ '']''
            @ [CHR 0x0A, CHR 0x0A],
          concat (map (\<lambda>(w, c). highlight w c)
            (zip (py_split (decode_sentence x index))
               (map (\<lambda>a. rgb2hex mpl (cm (Normalize mpl (- Max (abs ` set attributions))
                                                (Max (abs ` set attributions)) a)))
                  attributions))),
          py_split (decode_sentence x index))"
  using assms
  by (simp add: display_highlights_def Let_def colorize_Inr [OF abs_max_Max])

lemma display_highlights_empty:
  "display_highlights mpl index str_p str_l x example_label prediction [] = Inl ValueError"
  by (simp add: display_highlights_def Let_def colorize_def abs_max_def)

subsection \<open>The code cells\<close>



































subsection \<open>The batch prediction examples\<close>




text \<open>
  C8 (as amended). For every input string, \<open>download_table\<close> makes exactly one
  \<open>from_string\<close> call, and its argument is the input with one leading \<open>bq://\<close>
  removed when there is one, the input itself otherwise. Stripping is idempotent exactly
  on the inputs whose stripped form does not begin with \<open>bq://\<close> again; and for a table
  name \<open>t\<close> that does not begin with \<open>bq://\<close>, the prefixed URI and \<open>t\<close> itself
  resolve to the same string.
\<close>

theorem download_table_strips_one_prefix:
  "from_string_args (snd (download_table bq s tr)) =
      from_string_args tr @ [if prefix ''bq://'' s then drop 5 s else s]
   \<and> (table_uri (table_uri s) = table_uri s \<longleftrightarrow> \<not> prefix ''bq://'' (table_uri s))
   \<and> (\<not> prefix ''bq://'' t \<longrightarrow> table_uri (''bq://'' @ t) = table_uri t)"
proof (intro conjI)
  show "from_string_args (snd (download_table bq s tr)) =
      from_string_args tr @ [if prefix ''bq://'' s then drop 5 s else s]"
    by (simp only: download_table_from_string_args table_uri_cases)
next
  show "table_uri (table_uri s) = table_uri s \<longleftrightarrow> \<not> prefix ''bq://'' (table_uri s)"
  proof (cases "prefix ''bq://'' (table_uri s)")
    case True
    then have "length (table_uri s) \<ge> 5"
      by (auto simp: prefix_def)
    then have "length (drop 5 (table_uri s)) \<noteq> length (table_uri s)"
      by simp
    then have "drop 5 (table_uri s) \<noteq> table_uri s"
      by metis
    with True show ?thesis
      by (simp add: table_uri_cases [of "table_uri s"])
  next
    case False
    then show ?thesis
      by (simp add: table_uri_cases [of "table_uri s"])
  qed
next
  show "\<not> prefix ''bq://'' t \<longrightarrow> table_uri (''bq://'' @ t) = table_uri t"
    by (simp add: table_uri_def)
qed

theorem download_table_strips_one_prefix_witness:
  "\<not> prefix ''bq://'' ''beans.beans1''
   \<and> table_uri (''bq://'' @ ''beans.beans1'') = table_uri ''beans.beans1''
   \<and> table_uri ''beans.beans1'' = ''beans.beans1''
   \<and> table_uri (table_uri ''bq://beans.beans1'') = table_uri ''bq://beans.beans1''
   \<and> from_string_args (snd (download_table
        \<lparr>from_string = \<lambda>s. Inr s, list_rows = \<lambda>t. Inr (),
         to_dataframe = \<lambda>r b. Inl (ServiceError ''offline'') :: exn + unit dataframe\<rparr>
        ''bq://beans.beans1''
        ([] :: (string, unit, unit, unit, unit, unit) train_call trace))) = [''beans.beans1'']"
  using download_table_strips_one_prefix [of
      "\<lparr>from_string = \<lambda>s. Inr s, list_rows = \<lambda>t. Inr (),
        to_dataframe = \<lambda>r b. Inl (ServiceError ''offline'') :: exn + unit dataframe\<rparr>"
      "''bq://beans.beans1''"
      "[] :: (string, unit, unit, unit, unit, unit) train_call trace"
      "''beans.beans1''"]
  by (simp add: table_uri_def)

text \<open>
  C8 (counterexample to the claim as stated). Stripping is not idempotent on every
  input: a URI with the prefix twice loses one prefix at each application.
\<close>

theorem table_uri_idempotent_counterexample:
  "table_uri (table_uri ''bq://bq://beans.beans1'') \<noteq> table_uri ''bq://bq://beans.beans1''"
  by (simp add: table_uri_def)

text \<open>
  C1. For every assignment of its parameters (and every bucket name), \<open>my_pipeline\<close>
  builds exactly three operations, in this order: a tabular dataset creation, a custom
  container training job and a batch prediction. The training operation's
  \<open>dataset\<close> argument is the \<open>dataset\<close> output of the dataset operation, and the
  batch prediction's \<open>model\<close> argument is the \<open>model\<close> output of the training
  operation; these are the only outputs consumed, so each operation depends on the one
  built just before it and on no other.
\<close>

theorem my_pipeline_three_ops:
  "map component (my_pipeline B p) =
      [TabularDatasetCreateOp, CustomContainerTrainingJobRunOp, ModelBatchPredictOp]
   \<and> map task (my_pipeline B p) = [0, 1, 2]
   \<and> map_of (arguments (my_pipeline B p ! 1)) ''dataset'' = Some (TaskOutput 0 ''dataset'')
   \<and> map_of (arguments (my_pipeline B p ! 2)) ''model'' = Some (TaskOutput 1 ''model'')
   \<and> map upstream (my_pipeline B p) = [[], [0], [1]]"
  by (simp add: my_pipeline_def Let_def outputs_def upstream_def)







text \<open>
  C4 (as amended). The functions defined in the notebooks are not free of computation
  of their own: \<open>decode_sentence\<close> computes its result locally, and what it computes
  has a contract. It returns, for the tokens \<open>i\<close> of \<open>x\<close>, the words
  \<open>index.get(i - 3, "UNK")\<close> joined by single spaces. Whenever none of the words
  found is empty or contains white space, the white space of the result is one space
  character for each token but the first, and splitting the result gives exactly one
  word per token, in order. That word list is what \<open>display_highlights\<close> returns
  when there is at least one attribution and the colour map is found, after it has
  printed the prediction and the label on a line followed by an empty line, and
  displayed the words highlighted, each with the colour of its attribution, up to the
  shorter of the two lists; with no attribution it raises ValueError.
\<close>

theorem decode_sentence_words:
  assumes "\<forall>i \<in> set x. \<forall>w. index (i - 3) = Some w \<longrightarrow> w \<noteq> [] \<and> list_all (\<lambda>c. \<not> py_isspace c) w"
  shows "decode_sentence x index =
           str_join '' '' (map (\<lambda>i. case index (i - 3) of None \<Rightarrow> ''UNK'' | Some w \<Rightarrow> w) x)
       \<and> filter py_isspace (decode_sentence x index) = replicate (length x - 1) (CHR '' '')
       \<and> py_split (decode_sentence x index) =
           map (\<lambda>i. case index (i - 3) of None \<Rightarrow> ''UNK'' | Some w \<Rightarrow> w) x
       \<and> length (py_split (decode_sentence x index)) = length x
       \<and> (attributions \<noteq> [] \<and> get_cmap mpl ''PiYG'' = Inr cm \<longrightarrow>
            display_highlights mpl index str_p str_l x example_label prediction attributions =
              Inr (''Prediction:['' @ str_p prediction @ ''] Actual:['' @ str_l example_label @ '']''
                     @ [CHR 0x0A, CHR 0x0A],
                   concat (map (\<lambda>(w, c). highlight w c)
                     (zip (map (\<lambda>i. case index (i - 3) of None \<Rightarrow> ''UNK'' | Some w \<Rightarrow> w) x)
                        (map (\<lambda>a. rgb2hex mpl (cm (Normalize mpl (- Max (abs ` set attributions))
                                                         (Max (abs ` set attributions)) a)))
                           attributions))),
                   map (\<lambda>i. case index (i - 3) of None \<Rightarrow> ''UNK'' | Some w \<Rightarrow> w) x))
       \<and> display_highlights mpl index str_p str_l x example_label prediction [] = Inl ValueError"
proof -
  have "\<forall>w \<in> set (map (decode_word index) x). w \<noteq> [] \<and> list_all (\<lambda>c. \<not> py_isspace c) w"
  proof
    fix w assume "w \<in> set (map (decode_word index) x)"
    then obtain i where i: "i \<in> set x" "w = decode_word index i" by auto
    from assms i(1) have "\<forall>v. index (i - 3) = Some v \<longrightarrow> v \<noteq> [] \<and> list_all (\<lambda>c. \<not> py_isspace c) v"
      by blast
    then show "w \<noteq> [] \<and> list_all (\<lambda>c. \<not> py_isspace c) w"
      unfolding i(2) by (rule decode_word_clean)
  qed
  then have clean: "list_all (\<lambda>w. w \<noteq> [] \<and> list_all (\<lambda>c. \<not> py_isspace c) w) (map (decode_word index) x)"
    by (simp only: list_all_iff)
  have words: "map (decode_word index) x =
      map (\<lambda>i. case index (i - 3) of None \<Rightarrow> ''UNK'' | Some w \<Rightarrow> w) x"
    by (simp add: decode_word_def)
  have joined: "decode_sentence x index =
      str_join '' '' (map (\<lambda>i. case index (i - 3) of None \<Rightarrow> ''UNK'' | Some w \<Rightarrow> w) x)"
    unfolding decode_sentence_def words ..
  from clean have "list_all (\<lambda>w. list_all (\<lambda>c. \<not> py_isspace c) w) (map (decode_word index) x)"
    by (simp add: list_all_iff)
  then have "filter py_isspace (str_join '' '' (map (decode_word index) x)) =
      replicate (length (map (decode_word index) x) - 1) (CHR '' '')"
    by (rule filter_isspace_join)
  then have spaces: "filter py_isspace (decode_sentence x index) = replicate (length x - 1) (CHR '' '')"
    by (simp add: decode_sentence_def)
  from clean have "py_split (decode_sentence x index) = map (decode_word index) x"
    unfolding decode_sentence_def by (rule py_split_join)
  with words have split: "py_split (decode_sentence x index) =
      map (\<lambda>i. case index (i - 3) of None \<Rightarrow> ''UNK'' | Some w \<Rightarrow> w) x"
    by simp
  then have len: "length (py_split (decode_sentence x index)) = length x"
    by simp
  have shown: "attributions \<noteq> [] \<and> get_cmap mpl ''PiYG'' = Inr cm \<longrightarrow>
            display_highlights mpl index str_p str_l x example_label prediction attributions =
              Inr (''Prediction:['' @ str_p prediction @ ''] Actual:['' @ str_l example_label @ '']''
                     @ [CHR 0x0A, CHR 0x0A],
                   concat (map (\<lambda>(w, c). highlight w c)
                     (zip (map (\<lambda>i. case index (i - 3) of None \<Rightarrow> ''UNK'' | Some w \<Rightarrow> w) x)
                        (map (\<lambda>a. rgb2hex mpl (cm (Normalize mpl (- Max (abs ` set attributions))
                                                         (Max (abs ` set attributions)) a)))
                           attributions))),
                   map (\<lambda>i. case index (i - 3) of None \<Rightarrow> ''UNK'' | Some w \<Rightarrow> w) x)"
    using display_highlights_Inr [of attributions mpl cm index str_p str_l x example_label prediction]
    unfolding split by blast
  from joined spaces split len shown display_highlights_empty [of mpl index str_p str_l x example_label prediction]
  show ?thesis
    by (simp only: simp_thms)
qed

theorem decode_sentence_words_witness:
  "decode_sentence [4, 5, 9] (map_of [(1, ''the''), (2, ''and''), (4, ''of'')]) = ''the and UNK''
   \<and> filter py_isspace (decode_sentence [4, 5, 9] (map_of [(1, ''the''), (2, ''and''), (4, ''of'')])) =
       ''  ''
   \<and> py_split (decode_sentence [4, 5, 9] (map_of [(1, ''the''), (2, ''and''), (4, ''of'')])) =
       [''the'', ''and'', ''UNK'']
   \<and> length (py_split (decode_sentence [4, 5, 9] (map_of [(1, ''the''), (2, ''and''), (4, ''of'')]))) = 3
   \<and> display_highlights
        \<lparr>Normalize = \<lambda>vmin vmax a. (a - vmin) / (vmax - vmin), get_cmap = \<lambda>n. Inr (\<lambda>v. 2 * v \<le> 1),
         rgb2hex = \<lambda>c. if c then ''#c51b7d'' else ''#4d9221''\<rparr>
        (map_of [(1, ''the''), (2, ''and''), (4, ''of'')]) (\<lambda>p. if p then ''1'' else ''0'')
        (\<lambda>l. if l then ''1'' else ''0'') [4, 5, 9] True False [1, - 2 :: rat] =
       Inr (''Prediction:[0] Actual:[1]'' @ [CHR 0x0A, CHR 0x0A],
            ''<mark style=background-color:#4d9221>the </mark>'' @
            ''<mark style=background-color:#c51b7d>and </mark>'',
            [''the'', ''and'', ''UNK''])"
proof -
  let ?index = "map_of [(1 :: int, ''the''), (2, ''and''), (4, ''of'')]"
  let ?mpl = "\<lparr>Normalize = \<lambda>vmin vmax a :: rat. (a - vmin) / (vmax - vmin),
         get_cmap = \<lambda>n :: string. Inr (\<lambda>v :: rat. 2 * v \<le> 1) :: exn + (rat \<Rightarrow> bool),
         rgb2hex = \<lambda>c. if c then ''#c51b7d'' else ''#4d9221''\<rparr>"
  let ?str = "\<lambda>p. if p then ''1'' else ''0''"
  have h: "\<forall>i \<in> set [4, 5, 9 :: int]. \<forall>w. ?index (i - 3) = Some w
          \<longrightarrow> w \<noteq> [] \<and> list_all (\<lambda>c. \<not> py_isspace c) w"
    by (auto simp: py_isspace_def)
  note t = decode_sentence_words [OF h, where attributions = "[1, - 2]" and mpl = ?mpl
      and cm = "\<lambda>v :: rat. 2 * v \<le> 1" and str_p = ?str and prediction = False
      and str_l = ?str and example_label = True]
  have words: "map (\<lambda>i. case ?index (i - 3) of None \<Rightarrow> ''UNK'' | Some w \<Rightarrow> w) [4, 5, 9] =
      [''the'', ''and'', ''UNK'']"
    by simp
  from t have "decode_sentence [4, 5, 9] ?index =
      str_join '' '' (map (\<lambda>i. case ?index (i - 3) of None \<Rightarrow> ''UNK'' | Some w \<Rightarrow> w) [4, 5, 9])"
    by (rule conjunct1)
  then have a: "decode_sentence [4, 5, 9] ?index = ''the and UNK''"
    unfolding words by simp
  from t have "filter py_isspace (decode_sentence [4, 5, 9] ?index) =
      replicate (length [4, 5, 9 :: int] - 1) (CHR '' '')"
    by (rule conjunct2 [THEN conjunct1])
  then have b: "filter py_isspace (decode_sentence [4, 5, 9] ?index) = ''  ''"
    by (simp add: eval_nat_numeral)
  from t have "py_split (decode_sentence [4, 5, 9] ?index) =
      map (\<lambda>i. case ?index (i - 3) of None \<Rightarrow> ''UNK'' | Some w \<Rightarrow> w) [4, 5, 9]"
    by (rule conjunct2 [THEN conjunct2, THEN conjunct1])
  then have c: "py_split (decode_sentence [4, 5, 9] ?index) = [''the'', ''and'', ''UNK'']"
    unfolding words .
  from t have "length (py_split (decode_sentence [4, 5, 9] ?index)) = length [4, 5, 9 :: int]"
    by (rule conjunct2 [THEN conjunct2, THEN conjunct2, THEN conjunct1])
  then have d: "length (py_split (decode_sentence [4, 5, 9] ?index)) = 3"
    by simp
  have mx: "Max (abs ` set [1, - 2 :: rat]) = 2"
    by simp
  from t have "[1, - 2 :: rat] \<noteq> [] \<and> get_cmap ?mpl ''PiYG'' = Inr (\<lambda>v :: rat. 2 * v \<le> 1) \<longrightarrow>
      display_highlights ?mpl ?index ?str ?str [4, 5, 9] True False [1, - 2] =
        Inr (''Prediction:['' @ ?str False @ ''] Actual:['' @ ?str True @ '']'' @ [CHR 0x0A, CHR 0x0A],
             concat (map (\<lambda>(w, c). highlight w c)
               (zip (map (\<lambda>i. case ?index (i - 3) of None \<Rightarrow> ''UNK'' | Some w \<Rightarrow> w) [4, 5, 9])
                  (map (\<lambda>a. rgb2hex ?mpl ((\<lambda>v :: rat. 2 * v \<le> 1)
                          (Normalize ?mpl (- Max (abs ` set [1, - 2 :: rat]))
                             (Max (abs ` set [1, - 2 :: rat])) a)))
                     [1, - 2]))),
             map (\<lambda>i. case ?index (i - 3) of None \<Rightarrow> ''UNK'' | Some w \<Rightarrow> w) [4, 5, 9])"
    by (rule conjunct2 [THEN conjunct2, THEN conjunct2, THEN conjunct2, THEN conjunct1])
  then have e: "display_highlights ?mpl ?index ?str ?str [4, 5, 9] True False [1, - 2] =
       Inr (''Prediction:[0] Actual:[1]'' @ [CHR 0x0A, CHR 0x0A],
            ''<mark style=background-color:#4d9221>the </mark>'' @
            ''<mark style=background-color:#c51b7d>and </mark>'',
            [''the'', ''and'', ''UNK''])"
    unfolding words mx by (simp add: highlight_def)
  from a b c d e show ?thesis
    by (simp only: simp_thms)
qed

text \<open>
  C4 (counterexample to the claim as stated). \<open>decode_sentence\<close> is one of the functions
  the claim lists. No external service takes part in its result: on the tokens 4, 5, 9
  and an index with the words 1, 2 and 4 it answers with the words 1 and 2 and with
  \<open>UNK\<close>. The offset by 3 (token 4 is not decoded to the index's word 4), the default
  word and the joining are computed by the notebook's own code.
\<close>

theorem decode_sentence_local_counterexample:
  "decode_sentence [4, 5, 9] (map_of [(1, ''the''), (2, ''and''), (4, ''of'')]) = ''the and UNK''
   \<and> map_of [(1 :: int, ''the''), (2, ''and''), (4, ''of'')] 4 = Some ''of''"
  by (simp add: decode_sentence_def decode_word_def)

text \<open>
  C5. For every valid review index (negative indices count from the end, as in Python),
  \<open>send_explanation_request\<close> sends exactly one request to \<open>endpoint.explain\<close>,
  holding exactly one instance, the token list \<open>x_test[review]\<close>; and when the
  endpoint answers with a result that has \<open>predictions[0][0]\<close> and
  \<open>explanations[0]\<close>, the function returns that instance, the label
  \<open>y_test[review]\<close>, \<open>result.predictions[0][0]\<close> and \<open>result.explanations[0]\<close>.
\<close>

theorem send_explanation_request_one_instance:
  assumes "- int (length x_test) \<le> review" and "review < int (length x_test)"
      and "- int (length y_test) \<le> review" and "review < int (length y_test)"
  shows "explain_requests (snd (send_explanation_request x_test y_test endpoint review tr)) =
           explain_requests tr @ [[x_test ! nat (review mod int (length x_test))]]
       \<and> (\<forall>result p ps pss e es.
            explain endpoint [x_test ! nat (review mod int (length x_test))] = Inr result
            \<and> predictions result = (p # ps) # pss \<and> explanations result = e # es
            \<longrightarrow> fst (send_explanation_request x_test y_test endpoint review tr) =
                  Inr (x_test ! nat (review mod int (length x_test)),
                       y_test ! nat (review mod int (length y_test)), p, e))"
  using py_index_valid [OF assms(1,2)] py_index_valid [OF assms(3,4)]
  by (auto simp: send_explanation_request_def then_do_call ret_def py_index_def
      explain_requests_append split: sum.splits)

theorem send_explanation_request_one_instance_witness:
  "- int (length [[1, 14, 22], [1, 2, 3 :: int]]) \<le> - 1
   \<and> - 1 < int (length [0, 1 :: int])
   \<and> explain_requests (snd (send_explanation_request [[1, 14, 22], [1, 2, 3]] [0, 1 :: int]
        \<lparr>explain = \<lambda>instances. Inr \<lparr>predictions = [[9 / 10 :: rat]], explanations = [''e'']\<rparr>\<rparr>
        (- 1) [])) = [[[1, 2, 3]]]
   \<and> fst (send_explanation_request [[1, 14, 22], [1, 2, 3]] [0, 1 :: int]
        \<lparr>explain = \<lambda>instances. Inr \<lparr>predictions = [[9 / 10 :: rat]], explanations = [''e'']\<rparr>\<rparr>
        (- 1) []) = Inr ([1, 2, 3], 1, 9 / 10, ''e'')"
proof -
  let ?x = "[[1, 14, 22], [1, 2, 3 :: int]]" and ?y = "[0, 1 :: int]"
  let ?ep = "\<lparr>explain = \<lambda>instances :: int list list.
               Inr \<lparr>predictions = [[9 / 10 :: rat]], explanations = [''e'']\<rparr> :: exn + (rat, string) explain_response\<rparr>"
  have h: "- int (length ?x) \<le> - 1" "- 1 < int (length ?x)" "- int (length ?y) \<le> - 1"
      "- 1 < int (length ?y)"
    by simp_all
  note t = send_explanation_request_one_instance [OF h, of ?ep "[]"]
  have m: "nat (- 1 mod int (length ?x)) = 1" "nat (- 1 mod int (length ?y)) = 1"
    by simp_all
  from t [THEN conjunct1] have a: "explain_requests (snd (send_explanation_request ?x ?y ?ep (- 1) [])) = [[[1, 2, 3]]]"
    by (simp add: m)
  from t [THEN conjunct2, rule_format, of "\<lparr>predictions = [[9 / 10]], explanations = [''e'']\<rparr>" "9 / 10" "[]" "[]" "''e''" "[]"]
  have b: "fst (send_explanation_request ?x ?y ?ep (- 1) []) = Inr ([1, 2, 3], 1, 9 / 10, ''e'')"
    by (simp add: m)
  from h a b show ?thesis by simp
qed



text \<open>
  C7. The evaluation configuration has the label key \<open>toxicity\<close>; its only metric is
  \<open>FairnessIndicators\<close>, with exactly the thresholds 0.1, 0.3, 0.5, 0.7 and 0.9; it
  has exactly two slicing specifications, the empty one (the overall slice) and the one
  by the feature \<open>gender\<close>; and confidence intervals are switched off.
\<close>

theorem eval_config_fairness:
  "map label_key (model_specs eval_config) = [''toxicity'']
   \<and> map class_name (all_metrics eval_config) = [''FairnessIndicators'']
   \<and> metric_thresholds eval_config ''FairnessIndicators'' =
        [[Some (1 / 10), Some (3 / 10), Some (5 / 10), Some (7 / 10), Some (9 / 10)]]
   \<and> map feature_keys (slicing_specs eval_config) = [[], [''gender'']]
   \<and> \<not> compute_confidence_intervals (options eval_config)"
  by (simp add: eval_config_def all_metrics_def metric_thresholds_def thresholds_of_def
      parse_decimal_def is_digits_def is_digit_def digits_value_def)



text \<open>
  C9. The dictionary of the bar plot cell pairs words and attributions by position, up
  to the length of the shorter list; its keys are the distinct words among those, and a
  word that occurs more than once keeps the attribution of its last occurrence. The
  plot has exactly one bar per distinct word, the bars are sorted by their values, and
  the value of each bar is the attribution at the last position where its word occurs:
  the attributions at the earlier positions of a repeated word are in no bar. The cell
  raises nothing, and plots nothing when there is no word.
\<close>

theorem importance_dict_last_occurrence:
  fixes words :: "string list" and attributions :: "'v::linorder list"
  shows "distinct (map fst (importance_dict words attributions))
   \<and> set (map fst (importance_dict words attributions)) =
       set (take (min (length words) (length attributions)) words)
   \<and> (\<forall>i < min (length words) (length attributions).
         (\<forall>j. i < j \<and> j < min (length words) (length attributions) \<longrightarrow> words ! j \<noteq> words ! i)
         \<longrightarrow> map_of (importance_dict words attributions) (words ! i) = Some (attributions ! i))
   \<and> (\<exists>bars names.
         feature_attribution_plot words attributions =
           Inr (if names = [] then None else Some ([0..<length names], bars, names))
         \<and> distinct names
         \<and> set names = set (take (min (length words) (length attributions)) words)
         \<and> length bars = length names
         \<and> sorted bars
         \<and> (\<forall>k < length names.
               \<exists>i < min (length words) (length attributions).
                 words ! i = names ! k \<and> attributions ! i = bars ! k
                 \<and> (\<forall>j. i < j \<and> j < min (length words) (length attributions)
                        \<longrightarrow> words ! j \<noteq> words ! i)))"
proof (intro conjI)
  let ?d = "importance_dict words attributions"
  let ?names = "sorted_feature_names ?d"
  show "distinct (map fst ?d)" by (rule importance_dict_distinct)
  show "set (map fst ?d) = set (take (min (length words) (length attributions)) words)"
    by (rule importance_dict_keys)
  show "\<forall>i < min (length words) (length attributions).
         (\<forall>j. i < j \<and> j < min (length words) (length attributions) \<longrightarrow> words ! j \<noteq> words ! i)
         \<longrightarrow> map_of ?d (words ! i) = Some (attributions ! i)"
    using importance_dict_last by blast
  have names_set: "set ?names = set (map fst ?d)"
    by (simp add: sorted_feature_names_def)
  then have "set ?names \<subseteq> fst ` set ?d" by simp
  then obtain vs where vs: "map_raising (dict_item ?d) ?names = Inr vs"
      "map (map_of ?d) ?names = map Some vs"
    using map_raising_dict_item by blast
  have len: "length vs = length ?names"
    using vs(2) by (metis length_map)
  have "sorted (map (map_of ?d) ?names)"
    by (simp add: sorted_feature_names_def)
  then have srt: "sorted vs"
    using vs(2) sorted_map_Some by metis
  have nth: "\<forall>k < length ?names. map_of ?d (?names ! k) = Some (vs ! k)"
  proof (intro allI impI)
    fix k assume k: "k < length ?names"
    then have "map (map_of ?d) ?names ! k = map Some vs ! k" using vs(2) by simp
    with k len show "map_of ?d (?names ! k) = Some (vs ! k)" by simp
  qed
  show "\<exists>bars names.
         feature_attribution_plot words attributions =
           Inr (if names = [] then None else Some ([0..<length names], bars, names))
         \<and> distinct names
         \<and> set names = set (take (min (length words) (length attributions)) words)
         \<and> length bars = length names
         \<and> sorted bars
         \<and> (\<forall>k < length names.
               \<exists>i < min (length words) (length attributions).
                 words ! i = names ! k \<and> attributions ! i = bars ! k
                 \<and> (\<forall>j. i < j \<and> j < min (length words) (length attributions)
                        \<longrightarrow> words ! j \<noteq> words ! i))"
  proof (intro exI [of _ vs] exI [of _ ?names] conjI)
    show "feature_attribution_plot words attributions =
           Inr (if ?names = [] then None else Some ([0..<length ?names], vs, ?names))"
      by (simp add: feature_attribution_plot_def Let_def vs(1))
    show "distinct ?names"
      using importance_dict_distinct [of words attributions]
      by (simp add: sorted_feature_names_def)
    show "set ?names = set (take (min (length words) (length attributions)) words)"
      using names_set importance_dict_keys by metis
    show "length vs = length ?names" by (rule len)
    show "sorted vs" by (rule srt)
    show "\<forall>k < length ?names.
               \<exists>i < min (length words) (length attributions).
                 words ! i = ?names ! k \<and> attributions ! i = vs ! k
                 \<and> (\<forall>j. i < j \<and> j < min (length words) (length attributions)
                        \<longrightarrow> words ! j \<noteq> words ! i)"
    proof (intro allI impI)
      fix k assume k: "k < length ?names"
      let ?n = "min (length words) (length attributions)"
      from k have "?names ! k \<in> set ?names" by simp
      with names_set importance_dict_keys [of words attributions]
      have "?names ! k \<in> set (take ?n words)" by simp
      from last_occurrence [OF this] obtain i where i: "i < ?n" "words ! i = ?names ! k"
          and later: "\<forall>j. i < j \<and> j < ?n \<longrightarrow> words ! j \<noteq> ?names ! k"
        by auto
      from later i(2) have later': "\<forall>j. i < j \<and> j < ?n \<longrightarrow> words ! j \<noteq> words ! i" by simp
      with i(1) have "map_of ?d (words ! i) = Some (attributions ! i)"
        by (rule importance_dict_last)
      with nth k i(2) have "attributions ! i = vs ! k" by simp
      with i later' show "\<exists>i < ?n. words ! i = ?names ! k \<and> attributions ! i = vs ! k
                 \<and> (\<forall>j. i < j \<and> j < ?n \<longrightarrow> words ! j \<noteq> words ! i)"
        by blast
    qed
  qed
qed

theorem importance_dict_last_occurrence_witness:
  "importance_dict [''good'', ''bad'', ''good''] [1, - 2, 3, 7 :: int] = [(''good'', 3), (''bad'', - 2)]
   \<and> map_of (importance_dict [''good'', ''bad'', ''good''] [1, - 2, 3, 7 :: int]) ''good'' = Some 3
   \<and> feature_attribution_plot [''good'', ''bad'', ''good''] [1, - 2, 3, 7 :: int] =
       Inr (Some ([0, 1], [- 2, 3], [''bad'', ''good'']))"
  using importance_dict_last_occurrence [of "[''good'', ''bad'', ''good'']" "[1, - 2, 3, 7 :: int]"]
  by (simp add: importance_dict_def feature_attribution_plot_def sorted_feature_names_def
      dict_item_def Let_def upt_rec)

end
